theory Spec2Isabelle
  imports Main "HOL-Library.Word"
begin

unbundle bit_operations_syntax

section \<open>Common types\<close>

text \<open>
  The ESP-IDF status codes that the modelled functions return or pass through.
  \<open>ESP_ERR_INVALID_ARG\<close> is the code the credential store uses for a validation error.
\<close>

datatype esp_err_t =
    ESP_OK
  | ESP_FAIL
  | ESP_ERR_INVALID_ARG
  | ESP_ERR_INVALID_STATE
  | ESP_ERR_TIMEOUT
  | ESP_ERR_NVS_NOT_FOUND
  | ESP_ERR_NVS_INVALID_LENGTH
  | ESP_ERR_NVS_NOT_ENOUGH_SPACE

text \<open>
  Event groups are bit masks (\<open>EventBits_t\<close>); the bit positions are those of
  \<^verbatim>\<open>board.h\<close>.
\<close>

type_synonym EventBits_t = "32 word"

definition WIFI_CONNECTED_BIT :: EventBits_t where "WIFI_CONNECTED_BIT = 1"
definition WIFI_FAIL_BIT :: EventBits_t where "WIFI_FAIL_BIT = 2"
definition WIFI_CONFIG_SAVED_BIT :: EventBits_t where "WIFI_CONFIG_SAVED_BIT = 4"
definition FACTORY_RESET_BIT :: EventBits_t where "FACTORY_RESET_BIT = 8"
definition WEBSOCKET_CONNECTED_BIT :: EventBits_t where "WEBSOCKET_CONNECTED_BIT = 16"
definition WEBSOCKET_DISCONNECTED_BIT :: EventBits_t where "WEBSOCKET_DISCONNECTED_BIT = 32"

definition xEventGroupSetBits :: "EventBits_t \<Rightarrow> EventBits_t \<Rightarrow> EventBits_t" where
  "xEventGroupSetBits grp bits = grp OR bits"

definition xEventGroupClearBits :: "EventBits_t \<Rightarrow> EventBits_t \<Rightarrow> EventBits_t" where
  "xEventGroupClearBits grp bits = grp AND NOT bits"

section \<open>Credential store (board.c, NVS namespace wifi_config)\<close>

text \<open>
  The persisted store is the NVS namespace \<open>wifi_config\<close>: \<open>None\<close> while the namespace
  has never been created, otherwise a map from keys to the stored strings. A C string is
  modelled by its bytes before the terminating NUL, a pointer that may be \<open>NULL\<close> by an
  \<open>option\<close>.

  The NVS library is not part of the repository. Its calls are modelled after the ESP-IDF
  documentation of \<^verbatim>\<open>nvs.h\<close>; failures of the flash layer that the program cannot
  influence are supplied by an environment record, \<open>None\<close> meaning that the call succeeds.
\<close>

type_synonym nvs_namespace = "(string \<rightharpoonup> string) option"

record nvs_env =
  open_fault :: "esp_err_t option"
  set_fault :: "string \<Rightarrow> esp_err_t option"
  commit_fault :: "esp_err_t option"

definition nvs_ok :: nvs_env where
  "nvs_ok = \<lparr>open_fault = None, set_fault = (\<lambda>k. None), commit_fault = None\<rparr>"

datatype nvs_open_mode_t = NVS_READONLY | NVS_READWRITE

definition BOARD_WIFI_SSID_KEY :: string where "BOARD_WIFI_SSID_KEY = ''ssid''"
definition BOARD_WIFI_PASSWORD_KEY :: string where "BOARD_WIFI_PASSWORD_KEY = ''password''"

text \<open>
  \<open>nvs_open\<close>: a read-only open of a namespace that does not exist fails with
  \<open>ESP_ERR_NVS_NOT_FOUND\<close>; a read-write open creates it. The result is the error, or
  the key/value map the handle gives access to.
\<close>

definition nvs_open :: "nvs_env \<Rightarrow> nvs_open_mode_t \<Rightarrow> nvs_namespace \<Rightarrow> esp_err_t + (string \<rightharpoonup> string)" where
  "nvs_open env mode ns =
     (case open_fault env of
        Some e \<Rightarrow> Inl e
      | None \<Rightarrow>
          (case ns of
             Some kv \<Rightarrow> Inr kv
           | None \<Rightarrow> (case mode of NVS_READONLY \<Rightarrow> Inl ESP_ERR_NVS_NOT_FOUND
                                   | NVS_READWRITE \<Rightarrow> Inr Map.empty)))"

text \<open>
  \<open>nvs_get_str (handle, key, out_value, &length)\<close>. With \<open>out_value = NULL\<close> the call
  only stores the required buffer size in \<open>length\<close>; with a buffer it copies the string
  if \<open>length\<close> is large enough. In both cases the length counts the terminating NUL
  (ESP-IDF: ``for nvs_get_str this includes the zero terminator'').
  The result is the status, the string copied out (if any) and the new \<open>length\<close>.
\<close>

definition nvs_get_str :: "(string \<rightharpoonup> string) \<Rightarrow> string \<Rightarrow> bool \<Rightarrow> nat \<Rightarrow> esp_err_t \<times> string option \<times> nat" where
  "nvs_get_str kv key have_buffer len =
     (case kv key of
        None \<Rightarrow> (ESP_ERR_NVS_NOT_FOUND, None, len)
      | Some v \<Rightarrow>
          (if have_buffer
           then (if len < length v + 1 then (ESP_ERR_NVS_INVALID_LENGTH, None, length v + 1)
                 else (ESP_OK, Some v, length v + 1))
           else (ESP_OK, None, length v + 1)))"

definition nvs_set_str :: "nvs_env \<Rightarrow> (string \<rightharpoonup> string) \<Rightarrow> string \<Rightarrow> string \<Rightarrow> esp_err_t + (string \<rightharpoonup> string)" where
  "nvs_set_str env kv key v =
     (case set_fault env key of Some e \<Rightarrow> Inl e | None \<Rightarrow> Inr (kv(key \<mapsto> v)))"

definition nvs_commit :: "nvs_env \<Rightarrow> esp_err_t" where
  "nvs_commit env = (case commit_fault env of Some e \<Rightarrow> e | None \<Rightarrow> ESP_OK)"

text \<open>
  The globals of \<^verbatim>\<open>board.c\<close> that the modelled functions read or write, and
  the calls they make into the radio driver and the scheduler, recorded in order.
  \<open>s_wifi_event_group\<close> is \<open>None\<close> while the handle is \<open>NULL\<close>.
\<close>

datatype sta_call = VTaskDelay_ms int | Esp_wifi_connect

record board =
  nvs :: nvs_namespace
  board_event_group :: EventBits_t
  s_wifi_event_group :: "EventBits_t option"
  s_wifi_retry_num :: int
  sta_calls :: "sta_call list"

text \<open>
  \<open>board_wifi_has_valid_config (ssid, password)\<close>: the two flags say whether the caller
  passed an output buffer. The result is the returned boolean and the contents of the two
  output buffers (\<open>None\<close>: not written). The tests joined by \<open>||\<close> in the source are
  made one after the other, left to right, as C evaluates them.
\<close>

definition board_wifi_has_valid_config :: "nvs_env \<Rightarrow> bool \<Rightarrow> bool \<Rightarrow> board \<Rightarrow> bool \<times> string option \<times> string option" where
  "board_wifi_has_valid_config env want_ssid want_password st =
     (case nvs_open env NVS_READONLY (nvs st) of
        Inl e \<Rightarrow> (False, None, None)
      | Inr h \<Rightarrow>
          (case nvs_get_str h BOARD_WIFI_SSID_KEY False 0 of (ret1, _, ssid_len) \<Rightarrow>
           if ret1 \<noteq> ESP_OK then (False, None, None)
           else if ssid_len = 0 \<or> 32 < ssid_len then (False, None, None)
           else
             (case nvs_get_str h BOARD_WIFI_PASSWORD_KEY False 0 of (ret2, _, pass_len) \<Rightarrow>
              if ret2 \<noteq> ESP_OK then (False, None, None)
              else if 64 < pass_len then (False, None, None)
              else
                (case (if want_ssid then nvs_get_str h BOARD_WIFI_SSID_KEY True ssid_len
                       else (ESP_OK, None, ssid_len)) of (ret3, ssid, _) \<Rightarrow>
                 if ret3 \<noteq> ESP_OK then (False, ssid, None)
                 else
                   (case (if want_password then nvs_get_str h BOARD_WIFI_PASSWORD_KEY True pass_len
                          else (ESP_OK, None, pass_len)) of (ret4, password, _) \<Rightarrow>
                    if ret4 \<noteq> ESP_OK then (False, ssid, password)
                    else (True, ssid, password))))))"

text \<open>
  \<open>board_wifi_save_config (ssid, password)\<close>. The two argument checks come before the
  store is opened. The values written by \<open>nvs_set_str\<close> are kept in the store even
  when a later call fails, as the code does not roll back.
\<close>

definition board_wifi_save_config :: "nvs_env \<Rightarrow> string option \<Rightarrow> string option \<Rightarrow> board \<Rightarrow> esp_err_t \<times> board" where
  "board_wifi_save_config env ssid password st =
     (case ssid of
        None \<Rightarrow> (ESP_ERR_INVALID_ARG, st)
      | Some s \<Rightarrow>
          if length s = 0 \<or> 32 < length s then (ESP_ERR_INVALID_ARG, st)
          else
            (case password of
               None \<Rightarrow> (ESP_ERR_INVALID_ARG, st)
             | Some p \<Rightarrow>
                 if 64 < length p then (ESP_ERR_INVALID_ARG, st)
                 else
                   (case nvs_open env NVS_READWRITE (nvs st) of
                      Inl e \<Rightarrow> (e, st)
                    | Inr h0 \<Rightarrow>
                        (case nvs_set_str env h0 BOARD_WIFI_SSID_KEY s of
                           Inl e \<Rightarrow> (e, st\<lparr>nvs := Some h0\<rparr>)
                         | Inr h1 \<Rightarrow>
                             (case nvs_set_str env h1 BOARD_WIFI_PASSWORD_KEY p of
                                Inl e \<Rightarrow> (e, st\<lparr>nvs := Some h1\<rparr>)
                              | Inr h2 \<Rightarrow>
                                  (if nvs_commit env = ESP_OK
                                   then (ESP_OK,
                                         st\<lparr>nvs := Some h2,
                                            board_event_group :=
                                              xEventGroupSetBits (board_event_group st) WIFI_CONFIG_SAVED_BIT\<rparr>)
                                   else (nvs_commit env, st\<lparr>nvs := Some h2\<rparr>)))))))"

section \<open>Station connection manager (board.c)\<close>

definition BOARD_WIFI_MAX_RETRY :: int where "BOARD_WIFI_MAX_RETRY = 5"

text \<open>
  The events the handler is registered for: every \<open>WIFI_EVENT\<close> id and the IP events.
  \<open>WIFI_EVENT_OTHER\<close> stands for the ids the handler has no branch for.
\<close>

datatype wifi_event =
    WIFI_EVENT_STA_START
  | WIFI_EVENT_STA_CONNECTED
  | WIFI_EVENT_STA_DISCONNECTED
  | WIFI_EVENT_OTHER
  | IP_EVENT_STA_GOT_IP
  | IP_EVENT_STA_LOST_IP

text \<open>
  The argument of \<open>pdMS_TO_TICKS\<close> in the retry branch, \<open>500 * (1 << s_wifi_retry_num)\<close>.
  The branch is taken only for a counter below \<open>BOARD_WIFI_MAX_RETRY\<close>, and the counter
  never leaves the range from 0 to \<open>BOARD_WIFI_MAX_RETRY\<close> (lemma \<open>retry_num_range\<close>), so
  the 32-bit \<open>int\<close> arithmetic of the source cannot wrap.
\<close>

definition retry_delay_ms :: "int \<Rightarrow> int" where
  "retry_delay_ms n = 500 * push_bit (nat n) 1"

definition wifi_sta_event_handler :: "wifi_event \<Rightarrow> board \<Rightarrow> board" where
  "wifi_sta_event_handler ev st =
     (case ev of
        WIFI_EVENT_STA_START \<Rightarrow>
          st\<lparr>s_wifi_retry_num := 0, sta_calls := sta_calls st @ [Esp_wifi_connect]\<rparr>
      | WIFI_EVENT_STA_CONNECTED \<Rightarrow> st
      | WIFI_EVENT_STA_DISCONNECTED \<Rightarrow>
          if s_wifi_retry_num st < BOARD_WIFI_MAX_RETRY
          then st\<lparr>sta_calls := sta_calls st @
                        [VTaskDelay_ms (retry_delay_ms (s_wifi_retry_num st)), Esp_wifi_connect],
                   s_wifi_retry_num := s_wifi_retry_num st + 1\<rparr>
          else st\<lparr>s_wifi_event_group :=
                      map_option (\<lambda>g. xEventGroupSetBits g WIFI_FAIL_BIT) (s_wifi_event_group st),
                   board_event_group := xEventGroupSetBits (board_event_group st) WIFI_FAIL_BIT\<rparr>
      | WIFI_EVENT_OTHER \<Rightarrow> st
      | IP_EVENT_STA_GOT_IP \<Rightarrow>
          st\<lparr>s_wifi_retry_num := 0,
             s_wifi_event_group :=
               map_option (\<lambda>g. xEventGroupSetBits g WIFI_CONNECTED_BIT) (s_wifi_event_group st),
             board_event_group := xEventGroupSetBits (board_event_group st) WIFI_CONNECTED_BIT\<rparr>
      | IP_EVENT_STA_LOST_IP \<Rightarrow> st)"

text \<open>The event loop delivers the events one after the other.\<close>

fun sta_events :: "wifi_event list \<Rightarrow> board \<Rightarrow> board" where
  "sta_events [] st = st"
| "sta_events (ev # evs) st = sta_events evs (wifi_sta_event_handler ev st)"





text \<open>
  A state in which \<open>board_wifi_sta_init\<close> leaves the globals before the first event:
  credentials are stored, the event group exists with no bit set, the counter is 0.
\<close>

definition sta_initial :: board where
  "sta_initial = \<lparr>nvs = Some [BOARD_WIFI_SSID_KEY \<mapsto> ''MyNet'', BOARD_WIFI_PASSWORD_KEY \<mapsto> ''secret1''],
                  board_event_group = 0, s_wifi_event_group = Some 0,
                  s_wifi_retry_num = 0, sta_calls = []\<rparr>"

definition delays_of :: "sta_call list \<Rightarrow> int list" where
  "delays_of cs = concat (map (\<lambda>c. case c of VTaskDelay_ms d \<Rightarrow> [d] | Esp_wifi_connect \<Rightarrow> []) cs)"

section \<open>DNS responder (board.c, dns_server_task)\<close>

type_synonym byte = "8 word"

text \<open>
  What one call of \<open>recvfrom\<close> on the UDP socket gives: an error (the call returns
  \<open>-1\<close>, as it does once the socket is closed or the interface is down), or a datagram.
\<close>

datatype recv_result = Recv_error | Recv_datagram "byte list"

text \<open>
  The receive buffer holds 128 bytes and is zeroed before each call; a longer datagram is cut
  to the buffer and \<open>len\<close> is the number of bytes stored.
\<close>

definition rx_buffer_of :: "byte list \<Rightarrow> byte list" where
  "rx_buffer_of dgram = take 128 dgram @ replicate (128 - length dgram) 0"

definition rx_len_of :: "byte list \<Rightarrow> nat" where
  "rx_len_of dgram = min (length dgram) 128"

text \<open>
  The loop that walks over the labels of the question:
  \<^verbatim>\<open>while (question_end < len && rx_buffer[question_end] != 0)
     question_end += rx_buffer[question_end] + 1;\<close>
\<close>

function question_end_loop :: "nat \<Rightarrow> byte list \<Rightarrow> nat \<Rightarrow> nat" where
  "question_end_loop len rx_buffer question_end =
     (if question_end < len \<and> rx_buffer ! question_end \<noteq> 0
      then question_end_loop len rx_buffer (question_end + unat (rx_buffer ! question_end) + 1)
      else question_end)"
  by pat_completeness auto
termination
  by (relation "measure (\<lambda>(len, rx_buffer, question_end). len - question_end)") auto

text \<open>The first 12 bytes of the \<open>dns_reply\<close> template.\<close>

definition dns_reply_template :: "byte list" where
  "dns_reply_template = [0x00, 0x00, 0x81, 0x80, 0x00, 0x01, 0x00, 0x01, 0x00, 0x00, 0x00, 0x00]"

text \<open>
  The answer record up to its data: pointer to the name at offset 12, type A, class IN,
  TTL 10, data length 4.
\<close>

definition dns_answer_fixed :: "byte list" where
  "dns_answer_fixed = [0xC0, 0x0C, 0x00, 0x01, 0x00, 0x01, 0x00, 0x00, 0x00, 0x0A, 0x00, 0x04]"

text \<open>
  \<open>memcpy (&response[answer_offset], &ip_info.ip.addr, 4)\<close>: the four bytes of the
  32-bit address as they lie in the memory of the little-endian target. The address is
  kept in network byte order, so these are the octets \<open>a, b, c, d\<close> of \<open>a.b.c.d\<close>
  (what \<open>IP2STR\<close> prints).
\<close>

definition ip4_addr_bytes :: "32 word \<Rightarrow> byte list" where
  "ip4_addr_bytes addr =
     [ucast addr, ucast (drop_bit 8 addr), ucast (drop_bit 16 addr), ucast (drop_bit 24 addr)]"

text \<open>
  The body of the loop after a datagram has been received: the packet handed to
  \<open>sendto\<close>, or \<open>None\<close> when nothing is sent. \<open>dns_question_end\<close> is the value of
  \<open>question_end\<close> after the label loop and the \<open>+= 5\<close> for the closing zero byte, the
  type and the class. The extraction of the domain name into \<open>domain[64]\<close> only feeds
  a debug log line and is left out.
\<close>

definition dns_question_end :: "byte list \<Rightarrow> nat" where
  "dns_question_end dgram = question_end_loop (rx_len_of dgram) (rx_buffer_of dgram) 12 + 5"

definition dns_handle_datagram :: "32 word \<Rightarrow> byte list \<Rightarrow> byte list option" where
  "dns_handle_datagram ip_addr dgram =
     (let rx_buffer = rx_buffer_of dgram; len = rx_len_of dgram in
      if len < 12 then None
      else
        let dns_reply = dns_reply_template[0 := rx_buffer ! 0, 1 := rx_buffer ! 1];
            question_end = dns_question_end dgram
        in if question_end \<le> len \<and> question_end \<le> 64
           then Some (take 12 dns_reply @ take (question_end - 12) (drop 12 rx_buffer)
                      @ dns_answer_fixed @ ip4_addr_bytes ip_addr)
           else None)"

text \<open>
  One pass through \<open>while (1)\<close>: what is sent, and how the pass leaves the loop body.
  Both exits of the body in the source (the \<open>continue\<close> after \<open>len < 12\<close>, which is
  also where \<open>len = -1\<close> ends up, and the end of the body) go back to \<open>recvfrom\<close>;
  the source has no \<open>break\<close> and no \<open>return\<close> inside the loop.
\<close>

datatype loop_ctl = Loop_continue | Loop_break

definition dns_server_iteration :: "32 word \<Rightarrow> recv_result \<Rightarrow> byte list option \<times> loop_ctl" where
  "dns_server_iteration ip_addr r =
     (case r of
        Recv_error \<Rightarrow> (None, Loop_continue)
      | Recv_datagram dgram \<Rightarrow> (dns_handle_datagram ip_addr dgram, Loop_continue))"

text \<open>
  The task's loop run against a script of results for its successive \<open>recvfrom\<close>
  calls. The trace lists the socket calls in order; the status says whether the task has
  left the loop or sits in a further \<open>recvfrom\<close> for which the script has no result.
\<close>

datatype dns_call = Recvfrom | Sendto "byte list"

datatype task_status = Task_in_recvfrom | Task_exited

fun dns_server_task_loop :: "32 word \<Rightarrow> recv_result list \<Rightarrow> dns_call list \<times> task_status" where
  "dns_server_task_loop ip_addr [] = ([Recvfrom], Task_in_recvfrom)"
| "dns_server_task_loop ip_addr (r # rs) =
     (case dns_server_iteration ip_addr r of
        (out, ctl) \<Rightarrow>
          (let sent = (case out of None \<Rightarrow> [] | Some pkt \<Rightarrow> [Sendto pkt]) in
           case ctl of
             Loop_break \<Rightarrow> (Recvfrom # sent, Task_exited)
           | Loop_continue \<Rightarrow>
               (case dns_server_task_loop ip_addr rs of
                  (calls, status) \<Rightarrow> (Recvfrom # sent @ calls, status))))"

section \<open>Provisioning HTTP server (board.c, POST /api/set-wifi)\<close>

text \<open>
  The C string functions the handler uses. A pointer into a string is the rest of the
  string from that position; \<open>strstr\<close> gives the rest from the first match.
\<close>

fun strstr_c :: "string \<Rightarrow> string \<Rightarrow> string option" where
  "strstr_c [] needle = (if needle = [] then Some [] else None)"
| "strstr_c (c # cs) needle =
     (if take (length needle) (c # cs) = needle then Some (c # cs) else strstr_c cs needle)"

definition strchr_c :: "string \<Rightarrow> char \<Rightarrow> nat option" where
  "strchr_c str ch = (if ch \<in> set str then Some (length (takeWhile (\<lambda>c. c \<noteq> ch) str)) else None)"

text \<open>
  \<open>httpd_req_recv (req, buf, buf_len)\<close>: one of the negative error codes of the HTTP
  server's socket layer, or the number of bytes of the body copied into the buffer, at most
  \<open>buf_len\<close> and at most what the socket delivers in this one call (0 when there is
  nothing left to read). The result is the return value and the bytes copied.
\<close>

datatype httpd_sock_err = HTTPD_SOCK_ERR_FAIL | HTTPD_SOCK_ERR_INVALID | HTTPD_SOCK_ERR_TIMEOUT

fun httpd_sock_err_code :: "httpd_sock_err \<Rightarrow> int" where
  "httpd_sock_err_code HTTPD_SOCK_ERR_FAIL = -1"
| "httpd_sock_err_code HTTPD_SOCK_ERR_INVALID = -2"
| "httpd_sock_err_code HTTPD_SOCK_ERR_TIMEOUT = -3"

datatype httpd_sock = Httpd_sock_err httpd_sock_err | Httpd_sock_data nat

definition httpd_req_recv :: "httpd_sock \<Rightarrow> string \<Rightarrow> nat \<Rightarrow> int \<times> string" where
  "httpd_req_recv sock body buf_len =
     (case sock of
        Httpd_sock_err e \<Rightarrow> (httpd_sock_err_code e, [])
      | Httpd_sock_data k \<Rightarrow> (int (length (take (min buf_len k) body)), take (min buf_len k) body))"

datatype http_response = Resp_408 | Resp_json_ok | Resp_json_error esp_err_t

text \<open>
  With an \<open>&\<close> after \<open>ssid=\<close> the handler copies everything up to it into
  \<open>char ssid[33]\<close> and writes the terminator behind it, without a bound. For more than
  32 bytes this writes behind the array; the C behaviour is undefined there and the model
  stops with a fault.
\<close>

datatype handler_fault = Ssid_buffer_overrun

definition parse_ssid :: "string \<Rightarrow> handler_fault + string" where
  "parse_ssid buf =
     (case strstr_c buf ''ssid='' of
        None \<Rightarrow> Inr []
      | Some m \<Rightarrow>
          (let ssid_start = drop 5 m in
           case strchr_c ssid_start CHR ''&'' of
             Some n \<Rightarrow> if n \<le> 32 then Inr (take n ssid_start) else Inl Ssid_buffer_overrun
           | None \<Rightarrow> Inr (take 32 ssid_start)))"

definition parse_password :: "string \<Rightarrow> string" where
  "parse_password buf =
     (case strstr_c buf ''password='' of
        None \<Rightarrow> []
      | Some m \<Rightarrow> take 64 (drop 9 m))"

definition plus_to_space :: "string \<Rightarrow> string" where
  "plus_to_space str = map (\<lambda>c. if c = CHR ''+'' then CHR '' '' else c) str"

text \<open>
  The handler. After the receive, \<open>buf[ret] = 0\<close> makes the buffer a C string, which ends
  at the first NUL byte. The result is the fault, or the handler's return value, the
  response it sent (if any) and the new state.
\<close>

definition http_server_set_wifi_config_handler ::
    "nvs_env \<Rightarrow> httpd_sock \<Rightarrow> string \<Rightarrow> board \<Rightarrow> handler_fault + (esp_err_t \<times> http_response option \<times> board)" where
  "http_server_set_wifi_config_handler env sock body st =
     (case httpd_req_recv sock body 127 of
        (ret, received) \<Rightarrow>
          if ret \<le> 0
          then Inr (ESP_FAIL, (if ret = httpd_sock_err_code HTTPD_SOCK_ERR_TIMEOUT then Some Resp_408 else None), st)
          else
            (let buf = takeWhile (\<lambda>c. c \<noteq> CHR 0x00) received in
             case parse_ssid buf of
               Inl fault \<Rightarrow> Inl fault
             | Inr ssid0 \<Rightarrow>
                 (let ssid = plus_to_space ssid0;
                      password = plus_to_space (parse_password buf)
                  in case board_wifi_save_config env (Some ssid) (Some password) st of
                       (save_ret, st') \<Rightarrow>
                         Inr (ESP_OK,
                              Some (if save_ret = ESP_OK then Resp_json_ok
                                    else Resp_json_error save_ret),
                              st'))))"

section \<open>Session manager (main.c, websocket_event_handler)\<close>

text \<open>
  The state the handler and the timer callback share. Time is counted in milliseconds.
  \<open>reset_timer\<close> says whether the static timer handle has been created,
  \<open>reset_timer_expiry\<close> is the time at which the active one-shot timer runs out
  (\<open>None\<close>: dormant). \<open>announcements\<close> lists the times at which the Connected branch
  called \<open>play_pcm_by_id (4)\<close>, \<open>identity_sent\<close> the times of the
  \<open>device_connected\<close> messages. Data and error events do not touch any of these
  fields and are one constructor.
\<close>

datatype ws_event =
    WEBSOCKET_EVENT_CONNECTED
  | WEBSOCKET_EVENT_DISCONNECTED
  | WEBSOCKET_EVENT_OTHER

datatype system_state_t =
    SYSTEM_STATE_INIT
  | SYSTEM_STATE_WIFI_CONFIG
  | SYSTEM_STATE_WIFI_CONNECTING
  | SYSTEM_STATE_WIFI_CONNECTED
  | SYSTEM_STATE_WS_CONNECTED
  | SYSTEM_STATE_RECORDING
  | SYSTEM_STATE_PLAYING
  | SYSTEM_STATE_ERROR

record session =
  first_connection :: bool
  reset_timer :: bool
  reset_timer_expiry :: "nat option"
  announcements :: "nat list"
  identity_sent :: "nat list"
  ws_event_group :: EventBits_t
  s_system_state :: system_state_t

definition session_boot :: session where
  "session_boot = \<lparr>first_connection = True, reset_timer = False, reset_timer_expiry = None,
                   announcements = [], identity_sent = [], ws_event_group = 0,
                   s_system_state = SYSTEM_STATE_INIT\<rparr>"

definition RESET_TIMER_PERIOD_MS :: nat where "RESET_TIMER_PERIOD_MS = 30000"

definition reset_connection_timer_cb :: "session \<Rightarrow> session" where
  "reset_connection_timer_cb s = s\<lparr>first_connection := True\<rparr>"

text \<open>
  The timer service: when the one-shot timer has run out by \<open>now\<close> it becomes dormant and
  its callback runs.
\<close>

definition timer_service :: "nat \<Rightarrow> session \<Rightarrow> session" where
  "timer_service now s =
     (case reset_timer_expiry s of
        None \<Rightarrow> s
      | Some d \<Rightarrow> if d \<le> now then reset_connection_timer_cb (s\<lparr>reset_timer_expiry := None\<rparr>) else s)"

text \<open>
  The handler at time \<open>now\<close>. \<open>timer_ok\<close> says whether \<open>xTimerCreate\<close> can
  allocate the timer and the timer command queue takes the start or reset command; both
  \<open>xTimerStart\<close> and \<open>xTimerReset\<close> make the timer run out one period after
  \<open>now\<close>. The Connected branch does not touch the timer.
\<close>

definition websocket_event_handler :: "bool \<Rightarrow> nat \<Rightarrow> ws_event \<Rightarrow> session \<Rightarrow> session" where
  "websocket_event_handler timer_ok now ev s =
     (case ev of
        WEBSOCKET_EVENT_CONNECTED \<Rightarrow>
          (let s1 = (if first_connection s
                     then s\<lparr>announcements := announcements s @ [now], first_connection := False\<rparr>
                     else s)
           in s1\<lparr>ws_event_group := xEventGroupSetBits (ws_event_group s1) WEBSOCKET_CONNECTED_BIT,
                 identity_sent := identity_sent s1 @ [now],
                 s_system_state := SYSTEM_STATE_WS_CONNECTED\<rparr>)
      | WEBSOCKET_EVENT_DISCONNECTED \<Rightarrow>
          (let s1 = (if reset_timer s then s else s\<lparr>reset_timer := timer_ok\<rparr>);
               s2 = (if reset_timer s1 \<and> timer_ok
                     then s1\<lparr>reset_timer_expiry := Some (now + RESET_TIMER_PERIOD_MS)\<rparr>
                     else s1)
           in s2\<lparr>ws_event_group :=
                    xEventGroupSetBits
                      (xEventGroupClearBits (ws_event_group s2) WEBSOCKET_CONNECTED_BIT)
                      WEBSOCKET_DISCONNECTED_BIT,
                  s_system_state := SYSTEM_STATE_WIFI_CONNECTED\<rparr>)
      | WEBSOCKET_EVENT_OTHER \<Rightarrow> s)"

text \<open>
  A run over events with their times: before an event is handled, a timer that has run
  out by then has had its callback.
\<close>

fun session_run :: "bool \<Rightarrow> (nat \<times> ws_event) list \<Rightarrow> session \<Rightarrow> session" where
  "session_run timer_ok [] s = s"
| "session_run timer_ok ((t, ev) # es) s =
     session_run timer_ok es (websocket_event_handler timer_ok t ev (timer_service t s))"

text \<open>
  An invariant used in the proofs about runs: the reset timer is dormant, or it was armed
  by an accepted command and runs out after the time \<open>t\<close>.
\<close>

definition timer_later :: "bool \<Rightarrow> nat \<Rightarrow> session \<Rightarrow> bool" where
  "timer_later ok t s = (case reset_timer_expiry s of None \<Rightarrow> True | Some e \<Rightarrow> ok \<and> t < e)"

section \<open>Credential store: properties\<close>

lemma save_config_stores:
  "1 \<le> length s \<Longrightarrow> length s \<le> 32 \<Longrightarrow> length p \<le> 64 \<Longrightarrow>
   board_wifi_save_config nvs_ok (Some s) (Some p) st =
     (ESP_OK, st\<lparr>nvs := Some ((case nvs st of None \<Rightarrow> Map.empty | Some kv \<Rightarrow> kv)
                      (BOARD_WIFI_SSID_KEY \<mapsto> s, BOARD_WIFI_PASSWORD_KEY \<mapsto> p)),
                 board_event_group := xEventGroupSetBits (board_event_group st) WIFI_CONFIG_SAVED_BIT\<rparr>)"
  by (auto simp: board_wifi_save_config_def nvs_ok_def nvs_open_def nvs_set_str_def nvs_commit_def
      split: option.splits)

lemma has_valid_config_stored:
  "nvs st = Some kv \<Longrightarrow> kv BOARD_WIFI_SSID_KEY = Some s \<Longrightarrow> kv BOARD_WIFI_PASSWORD_KEY = Some p \<Longrightarrow>
   board_wifi_has_valid_config nvs_ok True True st =
     (if length s \<le> 31 \<and> length p \<le> 63 then (True, Some s, Some p) else (False, None, None))"
  by (simp add: board_wifi_has_valid_config_def nvs_ok_def nvs_open_def nvs_get_str_def)

text \<open>
  What the code does after a successful save: the stored pair is read back exactly when the
  network name has at most 31 bytes and the secret at most 63, because the lengths that
  \<open>board_wifi_has_valid_config\<close> compares with 32 and 64 count the terminator.
\<close>

lemma save_then_has_valid_config:
  assumes "1 \<le> length s" "length s \<le> 32" "length p \<le> 64"
  shows "fst (board_wifi_save_config nvs_ok (Some s) (Some p) st) = ESP_OK \<and>
     board_wifi_has_valid_config nvs_ok True True (snd (board_wifi_save_config nvs_ok (Some s) (Some p) st))
       = (if length s \<le> 31 \<and> length p \<le> 63 then (True, Some s, Some p) else (False, None, None))"
proof -
  let ?kv = "(case nvs st of None \<Rightarrow> Map.empty | Some kv \<Rightarrow> kv)
                      (BOARD_WIFI_SSID_KEY \<mapsto> s, BOARD_WIFI_PASSWORD_KEY \<mapsto> p)"
  let ?st' = "st\<lparr>nvs := Some ?kv,
                 board_event_group := xEventGroupSetBits (board_event_group st) WIFI_CONFIG_SAVED_BIT\<rparr>"
  have sv: "board_wifi_save_config nvs_ok (Some s) (Some p) st = (ESP_OK, ?st')"
    using assms by (simp add: save_config_stores)
  have k1: "?kv BOARD_WIFI_SSID_KEY = Some s"
    by (simp add: BOARD_WIFI_SSID_KEY_def BOARD_WIFI_PASSWORD_KEY_def)
  have k2: "?kv BOARD_WIFI_PASSWORD_KEY = Some p"
    by simp
  have n: "nvs ?st' = Some ?kv"
    by simp
  show ?thesis
    using has_valid_config_stored [OF n k1 k2] by (simp add: sv)
qed

text \<open>
  C1 (round trip of a saved credential pair). At a network name of exactly 32 bytes the save
  succeeds and raises the ConfigSaved bit, and the query that follows answers false and yields
  no credentials; the same happens at a secret of exactly 64 bytes.
\<close>

theorem roundtrip_fails_at_maximum_lengths:
  "fst (board_wifi_save_config nvs_ok (Some (replicate 32 CHR ''a'')) (Some ''secret1'')
          \<lparr>nvs = None, board_event_group = 0, s_wifi_event_group = None,
           s_wifi_retry_num = 0, sta_calls = []\<rparr>) = ESP_OK \<and>
   board_wifi_has_valid_config nvs_ok True True
     (snd (board_wifi_save_config nvs_ok (Some (replicate 32 CHR ''a'')) (Some ''secret1'')
          \<lparr>nvs = None, board_event_group = 0, s_wifi_event_group = None,
           s_wifi_retry_num = 0, sta_calls = []\<rparr>)) = (False, None, None) \<and>
   fst (board_wifi_save_config nvs_ok (Some ''MyNet'') (Some (replicate 64 CHR ''p''))
          \<lparr>nvs = None, board_event_group = 0, s_wifi_event_group = None,
           s_wifi_retry_num = 0, sta_calls = []\<rparr>) = ESP_OK \<and>
   board_wifi_has_valid_config nvs_ok True True
     (snd (board_wifi_save_config nvs_ok (Some ''MyNet'') (Some (replicate 64 CHR ''p''))
          \<lparr>nvs = None, board_event_group = 0, s_wifi_event_group = None,
           s_wifi_retry_num = 0, sta_calls = []\<rparr>)) = (False, None, None)"
  by (simp add: save_then_has_valid_config)

text \<open>
  C2 (rejected input leaves the store alone). A network name that is empty or longer than 32
  bytes, or a secret longer than 64 bytes, makes the save return \<open>ESP_ERR_INVALID_ARG\<close>
  with the whole state, the persisted namespace included, exactly as before the call,
  whatever the flash layer would have done.
\<close>

theorem save_config_rejects_invalid:
  "length ssid = 0 \<or> 32 < length ssid \<or> 64 < length password \<Longrightarrow>
   board_wifi_save_config env (Some ssid) (Some password) st = (ESP_ERR_INVALID_ARG, st)"
  by (auto simp: board_wifi_save_config_def)

theorem save_config_rejects_invalid_witness:
  "board_wifi_save_config nvs_ok (Some []) (Some ''secret1'')
      \<lparr>nvs = Some [BOARD_WIFI_SSID_KEY \<mapsto> ''Old''], board_event_group = 0,
       s_wifi_event_group = None, s_wifi_retry_num = 0, sta_calls = []\<rparr>
     = (ESP_ERR_INVALID_ARG,
        \<lparr>nvs = Some [BOARD_WIFI_SSID_KEY \<mapsto> ''Old''], board_event_group = 0,
         s_wifi_event_group = None, s_wifi_retry_num = 0, sta_calls = []\<rparr>) \<and>
   board_wifi_save_config nvs_ok (Some (replicate 33 CHR ''a'')) (Some ''secret1'')
      \<lparr>nvs = None, board_event_group = 0,
       s_wifi_event_group = None, s_wifi_retry_num = 0, sta_calls = []\<rparr>
     = (ESP_ERR_INVALID_ARG,
        \<lparr>nvs = None, board_event_group = 0,
         s_wifi_event_group = None, s_wifi_retry_num = 0, sta_calls = []\<rparr>) \<and>
   board_wifi_save_config nvs_ok (Some ''MyNet'') (Some (replicate 65 CHR ''p''))
      \<lparr>nvs = None, board_event_group = 0,
       s_wifi_event_group = None, s_wifi_retry_num = 0, sta_calls = []\<rparr>
     = (ESP_ERR_INVALID_ARG,
        \<lparr>nvs = None, board_event_group = 0,
         s_wifi_event_group = None, s_wifi_retry_num = 0, sta_calls = []\<rparr>)"
  using save_config_rejects_invalid [of "[]" "''secret1''" nvs_ok]
        save_config_rejects_invalid [of "replicate 33 CHR ''a''" "''secret1''" nvs_ok]
        save_config_rejects_invalid [of "''MyNet''" "replicate 65 CHR ''p''" nvs_ok]
  by simp

section \<open>Station connection manager: properties\<close>

lemma retry_num_range:
  "0 \<le> s_wifi_retry_num st \<and> s_wifi_retry_num st \<le> BOARD_WIFI_MAX_RETRY \<Longrightarrow>
   0 \<le> s_wifi_retry_num (wifi_sta_event_handler ev st) \<and>
   s_wifi_retry_num (wifi_sta_event_handler ev st) \<le> BOARD_WIFI_MAX_RETRY"
  by (cases ev) (auto simp: wifi_sta_event_handler_def BOARD_WIFI_MAX_RETRY_def)


lemma disconnects_below_limit:
  "0 \<le> s_wifi_retry_num st \<Longrightarrow> s_wifi_retry_num st + int k \<le> BOARD_WIFI_MAX_RETRY \<Longrightarrow>
   sta_events (replicate k WIFI_EVENT_STA_DISCONNECTED) st =
     st\<lparr>sta_calls := sta_calls st @
            concat (map (\<lambda>i. [VTaskDelay_ms (retry_delay_ms (s_wifi_retry_num st + int i)), Esp_wifi_connect]) [0..<k]),
        s_wifi_retry_num := s_wifi_retry_num st + int k\<rparr>"
proof (induction k arbitrary: st)
  case 0
  then show ?case by simp
next
  case (Suc k)
  let ?st1 = "wifi_sta_event_handler WIFI_EVENT_STA_DISCONNECTED st"
  have h: "?st1 = st\<lparr>sta_calls := sta_calls st @
                        [VTaskDelay_ms (retry_delay_ms (s_wifi_retry_num st)), Esp_wifi_connect],
                   s_wifi_retry_num := s_wifi_retry_num st + 1\<rparr>"
    using Suc.prems by (simp add: wifi_sta_event_handler_def)
  have "sta_events (replicate (Suc k) WIFI_EVENT_STA_DISCONNECTED) st =
        sta_events (replicate k WIFI_EVENT_STA_DISCONNECTED) ?st1"
    by simp
  also have "\<dots> = ?st1\<lparr>sta_calls := sta_calls ?st1 @
            concat (map (\<lambda>i. [VTaskDelay_ms (retry_delay_ms (s_wifi_retry_num ?st1 + int i)), Esp_wifi_connect]) [0..<k]),
        s_wifi_retry_num := s_wifi_retry_num ?st1 + int k\<rparr>"
    using Suc.prems by (intro Suc.IH) (simp_all add: h)
  also have "\<dots> = st\<lparr>sta_calls := sta_calls st @
            concat (map (\<lambda>i. [VTaskDelay_ms (retry_delay_ms (s_wifi_retry_num st + int i)), Esp_wifi_connect]) [0..<Suc k]),
        s_wifi_retry_num := s_wifi_retry_num st + int (Suc k)\<rparr>"
  proof -
    have "map (\<lambda>i. [VTaskDelay_ms (retry_delay_ms (s_wifi_retry_num st + int i)), Esp_wifi_connect]) [0..<Suc k]
        = [VTaskDelay_ms (retry_delay_ms (s_wifi_retry_num st)), Esp_wifi_connect] #
          map (\<lambda>i. [VTaskDelay_ms (retry_delay_ms (s_wifi_retry_num st + 1 + int i)), Esp_wifi_connect]) [0..<k]"
      by (simp add: upt_conv_Cons map_Suc_upt [symmetric] ac_simps del: upt_Suc)
    then show ?thesis
      by (simp add: h del: upt_Suc)
  qed
  finally show ?case .
qed





lemma delays_of_append: "delays_of (xs @ ys) = delays_of xs @ delays_of ys"
  by (simp add: delays_of_def)

lemma delays_of_retries:
  "delays_of (concat (map (\<lambda>i. [VTaskDelay_ms (f i), Esp_wifi_connect]) is)) = map f is"
  by (induction "is") (simp_all add: delays_of_def)

lemma retry_delay_ms_pow: "retry_delay_ms (int i) = 500 * 2 ^ i"
  by (simp add: retry_delay_ms_def push_bit_eq_mult)






text \<open>
  C9 (back-off between reconnect attempts). A run of up to \<open>BOARD_WIFI_MAX_RETRY\<close>
  disconnect events from a counter of 0 inserts, before the reconnect attempts, the delays
  \<open>retry_delay_ms 0, retry_delay_ms 1, \<dots>\<close>; the first is the base delay of 500 ms, each
  further one is twice the one before, and for every retry index below
  \<open>BOARD_WIFI_MAX_RETRY\<close> the delay is at most 8000 ms.
\<close>

theorem sta_retry_delays:
  assumes "s_wifi_retry_num st = 0" and "k \<le> nat BOARD_WIFI_MAX_RETRY"
  shows "delays_of (sta_calls (sta_events (replicate k WIFI_EVENT_STA_DISCONNECTED) st))
           = delays_of (sta_calls st) @ map (\<lambda>i. retry_delay_ms (int i)) [0..<k] \<and>
         retry_delay_ms 0 = 500 \<and>
         (\<forall>i. Suc i < nat BOARD_WIFI_MAX_RETRY \<longrightarrow>
               retry_delay_ms (int (Suc i)) = 2 * retry_delay_ms (int i)) \<and>
         (\<forall>i < nat BOARD_WIFI_MAX_RETRY. retry_delay_ms (int i) \<le> 8000)"
proof -
  have "int k \<le> BOARD_WIFI_MAX_RETRY"
    using assms(2) by (simp add: BOARD_WIFI_MAX_RETRY_def)
  then have d: "delays_of (sta_calls (sta_events (replicate k WIFI_EVENT_STA_DISCONNECTED) st))
           = delays_of (sta_calls st) @ map (\<lambda>i. retry_delay_ms (int i)) [0..<k]"
    using assms(1) by (simp add: disconnects_below_limit delays_of_append delays_of_retries)
  have z: "retry_delay_ms 0 = 500"
    by (simp add: retry_delay_ms_def)
  have cap: "retry_delay_ms (int i) \<le> 8000" if "i < nat BOARD_WIFI_MAX_RETRY" for i
  proof -
    have "i \<le> 4" using that by (simp add: BOARD_WIFI_MAX_RETRY_def)
    then have "(2::int) ^ i \<le> 2 ^ 4"
      by (intro power_increasing) simp_all
    then show ?thesis
      by (simp add: retry_delay_ms_pow)
  qed
  have dbl: "retry_delay_ms (int (Suc i)) = 2 * retry_delay_ms (int i)" for i
    unfolding retry_delay_ms_pow by simp
  show ?thesis
    using d z cap dbl by blast
qed

theorem sta_retry_delays_witness:
  "delays_of (sta_calls (sta_events (replicate 5 WIFI_EVENT_STA_DISCONNECTED) sta_initial))
     = [500, 1000, 2000, 4000, 8000]"
  using sta_retry_delays [of sta_initial 5]
  by (simp add: sta_initial_def BOARD_WIFI_MAX_RETRY_def delays_of_def retry_delay_ms_pow upt_conv_Cons)

section \<open>DNS responder: properties\<close>

lemma rx_buffer_nth: "i < rx_len_of dgram \<Longrightarrow> rx_buffer_of dgram ! i = dgram ! i"
  by (simp add: rx_buffer_of_def rx_len_of_def nth_append)

lemma rx_buffer_question:
  assumes "12 \<le> q" "q \<le> rx_len_of dgram"
  shows "take (q - 12) (drop 12 (rx_buffer_of dgram)) = take (q - 12) (drop 12 dgram)"
proof -
  have "take (q - 12) (drop 12 (rx_buffer_of dgram)) = take (q - 12) (drop 12 (take 128 dgram))"
    using assms by (simp add: rx_buffer_of_def rx_len_of_def)
  also have "\<dots> = take (q - 12) (drop 12 dgram)"
  proof -
    have "q - 12 \<le> 116"
      using assms by (auto simp: rx_len_of_def)
    then show ?thesis
      by (simp add: drop_take min_absorb1)
  qed
  finally show ?thesis .
qed

lemma question_end_loop_ge: "q \<le> question_end_loop len buf q"
proof (induction len buf q rule: question_end_loop.induct)
  case (1 len buf q)
  show ?case
  proof (cases "q < len \<and> buf ! q \<noteq> 0")
    case True
    then have "q + unat (buf ! q) + 1 \<le> question_end_loop len buf q"
      using "1.IH" by (subst question_end_loop.simps) simp
    then show ?thesis by simp
  next
    case False
    then show ?thesis by (subst question_end_loop.simps) simp
  qed
qed

lemma dns_question_end_ge: "17 \<le> dns_question_end dgram"
  using question_end_loop_ge [of 12 "rx_len_of dgram" "rx_buffer_of dgram"]
  by (simp add: dns_question_end_def)

lemma ip4_addr_bytes_octets:
  fixes a b c d :: byte
  shows "ip4_addr_bytes (ucast a OR push_bit 8 (ucast b) OR push_bit 16 (ucast c) OR push_bit 24 (ucast d))
           = [a, b, c, d]"
proof -
  let ?w = "ucast a OR push_bit 8 (ucast b) OR push_bit 16 (ucast c) OR push_bit 24 (ucast d) :: 32 word"
  have "ucast ?w = a" "ucast (drop_bit 8 ?w) = b" "ucast (drop_bit 16 ?w) = c" "ucast (drop_bit 24 ?w) = d"
    by (rule bit_word_eqI; auto simp: bit_simps dest: bit_imp_le_length)+
  then show ?thesis
    by (simp add: ip4_addr_bytes_def)
qed

text \<open>
  C4 (layout of the reply). Whenever the responder sends a reply to a datagram, the reply
  is: the first two bytes of the datagram (the transaction id), the fixed header bytes
  \<open>0x81 0x80\<close> with the counts 1 question, 1 answer, 0 authority, 0 additional, the
  question section of the datagram (its bytes from offset 12 up to \<open>dns_question_end\<close>)
  unchanged, and one answer record made of the pointer \<open>0xC0 0x0C\<close>, type A, class IN,
  TTL 10, data length 4 and four data bytes. The data bytes are the bytes 0 to 3 of the
  access point's 32-bit address value, lowest first. The address \<open>a.b.c.d\<close> is held in
  network byte order, which on the little-endian target is the value with \<open>a\<close> in bits
  0 to 7, \<open>b\<close> in bits 8 to 15, \<open>c\<close> in bits 16 to 23 and \<open>d\<close> in bits 24 to 31;
  for it the data bytes are \<open>a, b, c, d\<close>. In particular the first two bytes of the
  reply are the transaction id and the last four are the address, whatever name was asked
  for.
\<close>

theorem dns_reply_layout:
  assumes "dns_handle_datagram ip_addr dgram = Some reply"
  shows "reply = take 2 dgram @ [0x81, 0x80, 0x00, 0x01, 0x00, 0x01, 0x00, 0x00, 0x00, 0x00]
                 @ take (dns_question_end dgram - 12) (drop 12 dgram)
                 @ [0xC0, 0x0C, 0x00, 0x01, 0x00, 0x01, 0x00, 0x00, 0x00, 0x0A, 0x00, 0x04]
                 @ [ucast ip_addr, ucast (drop_bit 8 ip_addr),
                    ucast (drop_bit 16 ip_addr), ucast (drop_bit 24 ip_addr)] \<and>
         dns_question_end dgram \<le> length dgram \<and>
         length reply = dns_question_end dgram + 16 \<and>
         take 2 reply = take 2 dgram \<and>
         drop (dns_question_end dgram + 12) reply
           = [ucast ip_addr, ucast (drop_bit 8 ip_addr),
              ucast (drop_bit 16 ip_addr), ucast (drop_bit 24 ip_addr)] \<and>
         (\<forall>a b c d.
            ip_addr = ucast a OR push_bit 8 (ucast b) OR push_bit 16 (ucast c) OR push_bit 24 (ucast d)
            \<longrightarrow> drop (dns_question_end dgram + 12) reply = [a, b, c, d])"
proof -
  let ?q = "dns_question_end dgram"
  let ?ip = "[ucast ip_addr, ucast (drop_bit 8 ip_addr),
              ucast (drop_bit 16 ip_addr), ucast (drop_bit 24 ip_addr)] :: byte list"
  have len: "12 \<le> rx_len_of dgram" and q: "?q \<le> rx_len_of dgram" "?q \<le> 64"
    using assms by (auto simp: dns_handle_datagram_def Let_def split: if_splits)
  have q12: "12 \<le> ?q"
    using dns_question_end_ge [of dgram] by simp
  have ql: "?q \<le> length dgram"
    using q(1) by (simp add: rx_len_of_def)
  have r: "reply = take 12 (dns_reply_template[0 := rx_buffer_of dgram ! 0, 1 := rx_buffer_of dgram ! 1])
                   @ take (?q - 12) (drop 12 (rx_buffer_of dgram))
                   @ dns_answer_fixed @ ip4_addr_bytes ip_addr"
    using assms len q by (simp add: dns_handle_datagram_def Let_def)
  have hd: "take 12 (dns_reply_template[0 := rx_buffer_of dgram ! 0, 1 := rx_buffer_of dgram ! 1])
            = take 2 dgram @ [0x81, 0x80, 0x00, 0x01, 0x00, 0x01, 0x00, 0x00, 0x00, 0x00]"
  proof -
    have "2 \<le> length dgram" using len by (simp add: rx_len_of_def)
    then obtain a b rest where d: "dgram = a # b # rest"
      by (cases dgram; cases "tl dgram") auto
    have "rx_buffer_of dgram ! 0 = dgram ! 0" "rx_buffer_of dgram ! 1 = dgram ! 1"
      using len by (simp_all add: rx_buffer_nth)
    then show ?thesis
      by (simp add: dns_reply_template_def d)
  qed
  let ?pre = "take 2 dgram @ [0x81, 0x80, 0x00, 0x01, 0x00, 0x01, 0x00, 0x00, 0x00, 0x00]
                 @ take (?q - 12) (drop 12 dgram)
                 @ [0xC0, 0x0C, 0x00, 0x01, 0x00, 0x01, 0x00, 0x00, 0x00, 0x0A, 0x00, 0x04]"
  have eq: "reply = ?pre @ ?ip"
    using r hd rx_buffer_question [OF q12 q(1)]
    by (simp add: dns_answer_fixed_def ip4_addr_bytes_def)
  have l2: "length (take 2 dgram) = 2"
    using ql q12 by simp
  have lq: "length (take (?q - 12) (drop 12 dgram)) = ?q - 12"
    using ql by simp
  have lp: "length ?pre = ?q + 12"
    using q12 by (simp add: l2 lq del: length_take)
  have lr: "length reply = ?q + 16"
  proof -
    have "length reply = length ?pre + length ?ip"
      by (subst eq) (rule length_append)
    also have "\<dots> = ?q + 12 + 4"
      by (simp only: lp) simp
    finally show ?thesis by simp
  qed
  have t2: "take 2 reply = take 2 dgram"
    by (subst eq) (simp add: l2 del: length_take)
  have dr: "drop (?q + 12) reply = ?ip"
    using eq lp by (metis append_eq_conv_conj)
  have oct: "drop (?q + 12) reply = [a, b, c, d]"
    if "ip_addr = ucast a OR push_bit 8 (ucast b) OR push_bit 16 (ucast c) OR push_bit 24 (ucast d)"
    for a b c d
    using dr ip4_addr_bytes_octets [of a b c d] that by (simp add: ip4_addr_bytes_def)
  have e: "reply = take 2 dgram @ [0x81, 0x80, 0x00, 0x01, 0x00, 0x01, 0x00, 0x00, 0x00, 0x00]
                 @ take (?q - 12) (drop 12 dgram)
                 @ [0xC0, 0x0C, 0x00, 0x01, 0x00, 0x01, 0x00, 0x00, 0x00, 0x0A, 0x00, 0x04]
                 @ ?ip"
    using eq by simp
  show ?thesis
    using e ql lr t2 dr oct by blast
qed

text \<open>
  The same query answered by an access point at 192.168.4.1 and by one at 10.0.0.7.
\<close>

theorem dns_reply_layout_witness:
  "dns_handle_datagram 0x0104A8C0
     [0x12, 0x34, 0x01, 0x00, 0x00, 0x01, 0x00, 0x00, 0x00, 0x00, 0x00, 0x00,
      0x01, 0x61, 0x02, 0x62, 0x63, 0x00, 0x00, 0x01, 0x00, 0x01]
   = Some ([0x12, 0x34, 0x81, 0x80, 0x00, 0x01, 0x00, 0x01, 0x00, 0x00, 0x00, 0x00,
            0x01, 0x61, 0x02, 0x62, 0x63, 0x00, 0x00, 0x01, 0x00, 0x01,
            0xC0, 0x0C, 0x00, 0x01, 0x00, 0x01, 0x00, 0x00, 0x00, 0x0A, 0x00, 0x04,
            192, 168, 4, 1]) \<and>
   drop (dns_question_end
           [0x12, 0x34, 0x01, 0x00, 0x00, 0x01, 0x00, 0x00, 0x00, 0x00, 0x00, 0x00,
            0x01, 0x61, 0x02, 0x62, 0x63, 0x00, 0x00, 0x01, 0x00, 0x01] + 12)
     [0x12, 0x34, 0x81, 0x80, 0x00, 0x01, 0x00, 0x01, 0x00, 0x00, 0x00, 0x00,
      0x01, 0x61, 0x02, 0x62, 0x63, 0x00, 0x00, 0x01, 0x00, 0x01,
      0xC0, 0x0C, 0x00, 0x01, 0x00, 0x01, 0x00, 0x00, 0x00, 0x0A, 0x00, 0x04,
      192, 168, 4, 1]
   = [192, 168, 4, 1 :: byte] \<and>
   dns_handle_datagram 0x0700000A
     [0x12, 0x34, 0x01, 0x00, 0x00, 0x01, 0x00, 0x00, 0x00, 0x00, 0x00, 0x00,
      0x01, 0x61, 0x02, 0x62, 0x63, 0x00, 0x00, 0x01, 0x00, 0x01]
   = Some ([0x12, 0x34, 0x81, 0x80, 0x00, 0x01, 0x00, 0x01, 0x00, 0x00, 0x00, 0x00,
            0x01, 0x61, 0x02, 0x62, 0x63, 0x00, 0x00, 0x01, 0x00, 0x01,
            0xC0, 0x0C, 0x00, 0x01, 0x00, 0x01, 0x00, 0x00, 0x00, 0x0A, 0x00, 0x04,
            10, 0, 0, 7]) \<and>
   drop (dns_question_end
           [0x12, 0x34, 0x01, 0x00, 0x00, 0x01, 0x00, 0x00, 0x00, 0x00, 0x00, 0x00,
            0x01, 0x61, 0x02, 0x62, 0x63, 0x00, 0x00, 0x01, 0x00, 0x01] + 12)
     [0x12, 0x34, 0x81, 0x80, 0x00, 0x01, 0x00, 0x01, 0x00, 0x00, 0x00, 0x00,
      0x01, 0x61, 0x02, 0x62, 0x63, 0x00, 0x00, 0x01, 0x00, 0x01,
      0xC0, 0x0C, 0x00, 0x01, 0x00, 0x01, 0x00, 0x00, 0x00, 0x0A, 0x00, 0x04,
      10, 0, 0, 7]
   = [10, 0, 0, 7 :: byte]"
proof -
  let ?d = "[0x12, 0x34, 0x01, 0x00, 0x00, 0x01, 0x00, 0x00, 0x00, 0x00, 0x00, 0x00,
      0x01, 0x61, 0x02, 0x62, 0x63, 0x00, 0x00, 0x01, 0x00, 0x01] :: byte list"
  let ?r1 = "[0x12, 0x34, 0x81, 0x80, 0x00, 0x01, 0x00, 0x01, 0x00, 0x00, 0x00, 0x00,
            0x01, 0x61, 0x02, 0x62, 0x63, 0x00, 0x00, 0x01, 0x00, 0x01,
            0xC0, 0x0C, 0x00, 0x01, 0x00, 0x01, 0x00, 0x00, 0x00, 0x0A, 0x00, 0x04,
            192, 168, 4, 1] :: byte list"
  let ?r2 = "[0x12, 0x34, 0x81, 0x80, 0x00, 0x01, 0x00, 0x01, 0x00, 0x00, 0x00, 0x00,
            0x01, 0x61, 0x02, 0x62, 0x63, 0x00, 0x00, 0x01, 0x00, 0x01,
            0xC0, 0x0C, 0x00, 0x01, 0x00, 0x01, 0x00, 0x00, 0x00, 0x0A, 0x00, 0x04,
            10, 0, 0, 7] :: byte list"
  have h1: "dns_handle_datagram 0x0104A8C0 ?d = Some ?r1"
    by (simp add: dns_handle_datagram_def dns_question_end_def rx_len_of_def rx_buffer_of_def
          dns_reply_template_def dns_answer_fixed_def ip4_addr_bytes_def Let_def)
  have h2: "dns_handle_datagram 0x0700000A ?d = Some ?r2"
    by (simp add: dns_handle_datagram_def dns_question_end_def rx_len_of_def rx_buffer_of_def
          dns_reply_template_def dns_answer_fixed_def ip4_addr_bytes_def Let_def)
  have a1: "(0x0104A8C0 :: 32 word)
     = ucast (192 :: byte) OR push_bit 8 (ucast (168 :: byte))
       OR push_bit 16 (ucast (4 :: byte)) OR push_bit 24 (ucast (1 :: byte))"
    by simp
  have a2: "(0x0700000A :: 32 word)
     = ucast (10 :: byte) OR push_bit 8 (ucast (0 :: byte))
       OR push_bit 16 (ucast (0 :: byte)) OR push_bit 24 (ucast (7 :: byte))"
    by simp
  have f1: "drop (dns_question_end ?d + 12) ?r1 = [192, 168, 4, 1]"
    using dns_reply_layout [OF h1, THEN conjunct2, THEN conjunct2, THEN conjunct2,
             THEN conjunct2, THEN conjunct2, rule_format, OF a1] .
  have f2: "drop (dns_question_end ?d + 12) ?r2 = [10, 0, 0, 7]"
    using dns_reply_layout [OF h2, THEN conjunct2, THEN conjunct2, THEN conjunct2,
             THEN conjunct2, THEN conjunct2, rule_format, OF a2] .
  show ?thesis
    by (intro conjI) (rule h1 f1 h2 f2)+
qed

text \<open>
  C7 (malformed queries are dropped). No packet is sent in a pass of the loop whose datagram
  is shorter than 12 bytes, or whose question section, as the responder measures it, ends
  behind byte 64 or behind the received length; nor in a pass whose receive call failed.
\<close>

theorem dns_malformed_query_dropped:
  "(length dgram < 12 \<longrightarrow> fst (dns_server_iteration ip_addr (Recv_datagram dgram)) = None) \<and>
   (64 < dns_question_end dgram \<or> rx_len_of dgram < dns_question_end dgram \<longrightarrow>
      fst (dns_server_iteration ip_addr (Recv_datagram dgram)) = None) \<and>
   fst (dns_server_iteration ip_addr Recv_error) = None"
  by (auto simp: dns_server_iteration_def dns_handle_datagram_def rx_len_of_def Let_def)

theorem dns_malformed_query_dropped_witness:
  "length [0x12, 0x34, 0x01, 0x00, 0x00, 0x01, 0x00, 0x00, 0x00, 0x00, 0x00 :: byte] < 12 \<and>
   fst (dns_server_iteration 0x0104A8C0
          (Recv_datagram [0x12, 0x34, 0x01, 0x00, 0x00, 0x01, 0x00, 0x00, 0x00, 0x00, 0x00])) = None \<and>
   rx_len_of ([0x12, 0x34, 0x01, 0x00, 0x00, 0x01, 0x00, 0x00, 0x00, 0x00, 0x00, 0x00, 0x03, 0x61])
     < dns_question_end
         ([0x12, 0x34, 0x01, 0x00, 0x00, 0x01, 0x00, 0x00, 0x00, 0x00, 0x00, 0x00, 0x03, 0x61]) \<and>
   fst (dns_server_iteration 0x0104A8C0
          (Recv_datagram
             [0x12, 0x34, 0x01, 0x00, 0x00, 0x01, 0x00, 0x00, 0x00, 0x00, 0x00, 0x00, 0x03, 0x61])) = None \<and>
   64 < dns_question_end
          ([0x12, 0x34, 0x01, 0x00, 0x00, 0x01, 0x00, 0x00, 0x00, 0x00, 0x00, 0x00, 0x3F]
           @ replicate 63 0x61 @ [0x00, 0x00, 0x01, 0x00, 0x01]) \<and>
   fst (dns_server_iteration 0x0104A8C0
          (Recv_datagram
             ([0x12, 0x34, 0x01, 0x00, 0x00, 0x01, 0x00, 0x00, 0x00, 0x00, 0x00, 0x00, 0x3F]
              @ replicate 63 0x61 @ [0x00, 0x00, 0x01, 0x00, 0x01]))) = None"
proof -
  have a: "rx_len_of ([0x12, 0x34, 0x01, 0x00, 0x00, 0x01, 0x00, 0x00, 0x00, 0x00, 0x00, 0x00, 0x03, 0x61])
     < dns_question_end
         ([0x12, 0x34, 0x01, 0x00, 0x00, 0x01, 0x00, 0x00, 0x00, 0x00, 0x00, 0x00, 0x03, 0x61])"
    by (simp add: dns_question_end_def rx_len_of_def rx_buffer_of_def)
  have b: "64 < dns_question_end
          ([0x12, 0x34, 0x01, 0x00, 0x00, 0x01, 0x00, 0x00, 0x00, 0x00, 0x00, 0x00, 0x3F]
           @ replicate 63 0x61 @ [0x00, 0x00, 0x01, 0x00, 0x01])"
    using dns_question_end_ge by (simp add: dns_question_end_def rx_len_of_def rx_buffer_of_def nth_append)
  show ?thesis
    using a b
      dns_malformed_query_dropped [of "[0x12, 0x34, 0x01, 0x00, 0x00, 0x01, 0x00, 0x00, 0x00, 0x00, 0x00]" "0x0104A8C0"]
      dns_malformed_query_dropped [of "[0x12, 0x34, 0x01, 0x00, 0x00, 0x01, 0x00, 0x00, 0x00, 0x00, 0x00, 0x00, 0x03, 0x61]" "0x0104A8C0"]
      dns_malformed_query_dropped [of "[0x12, 0x34, 0x01, 0x00, 0x00, 0x01, 0x00, 0x00, 0x00, 0x00, 0x00, 0x00, 0x3F]
           @ replicate 63 0x61 @ [0x00, 0x00, 0x01, 0x00, 0x01]" "0x0104A8C0"]
    by simp
qed

text \<open>
  The loop has no exit: whatever the receive calls give, errors included, the task ends up
  in one more \<open>recvfrom\<close>.
\<close>

lemma dns_task_loop_never_exits: "snd (dns_server_task_loop ip_addr rs) = Task_in_recvfrom"
  by (induction rs) (auto simp: dns_server_iteration_def split: recv_result.splits prod.splits)

lemma dns_task_loop_receives:
  "length (filter (\<lambda>c. c = Recvfrom) (fst (dns_server_task_loop ip_addr rs))) = length rs + 1"
  by (induction rs)
     (auto simp: dns_server_iteration_def split: recv_result.splits prod.splits option.splits)

text \<open>
  C8 (a receive error ends the task). The code does the opposite: after a failed receive the
  task calls \<open>recvfrom\<close> again, and again after the next failure, without leaving the loop.
\<close>

theorem dns_task_retries_after_receive_error:
  "dns_server_task_loop 0x0104A8C0 [Recv_error, Recv_error]
     = ([Recvfrom, Recvfrom, Recvfrom], Task_in_recvfrom)"
  by (simp add: dns_server_iteration_def)

section \<open>Provisioning HTTP server: properties\<close>

lemma httpd_req_recv_prefix:
  "httpd_req_recv sock (take 127 body) 127 = httpd_req_recv sock body 127"
  by (cases sock) (auto simp: httpd_req_recv_def min_def)

text \<open>
  C10 (the set-wifi handler reads at most 127 bytes). The handler's whole outcome (the
  credentials it stores, the response it sends, its return value, or the fault) is the
  same for a request body and for the first 127 bytes of that body, whatever the socket and
  the flash layer do: what lies behind byte 127 is never read, and nothing rejects a longer
  body.
\<close>

theorem set_wifi_reads_first_127_bytes:
  "http_server_set_wifi_config_handler env sock body st
     = http_server_set_wifi_config_handler env sock (take 127 body) st"
  unfolding http_server_set_wifi_config_handler_def httpd_req_recv_prefix ..


text \<open>
  A body of 148 bytes whose fields start at byte 120: the handler answers with the success
  response and stores what the first 127 bytes hold, the name \<open>M\<close> and an empty secret.
\<close>

theorem set_wifi_reads_first_127_bytes_witness:
  "http_server_set_wifi_config_handler nvs_ok (Httpd_sock_data 148)
      (replicate 120 CHR ''x'' @ ''&ssid=MyNet&password=secret1'')
      \<lparr>nvs = None, board_event_group = 0, s_wifi_event_group = None,
       s_wifi_retry_num = 0, sta_calls = []\<rparr>
   = Inr (ESP_OK, Some Resp_json_ok,
      \<lparr>nvs = Some [BOARD_WIFI_SSID_KEY \<mapsto> ''M'', BOARD_WIFI_PASSWORD_KEY \<mapsto> []],
       board_event_group = 4, s_wifi_event_group = None,
       s_wifi_retry_num = 0, sta_calls = []\<rparr>) \<and>
   http_server_set_wifi_config_handler nvs_ok (Httpd_sock_data 148)
      (replicate 120 CHR ''x'' @ ''&ssid=M'')
      \<lparr>nvs = None, board_event_group = 0, s_wifi_event_group = None,
       s_wifi_retry_num = 0, sta_calls = []\<rparr>
   = Inr (ESP_OK, Some Resp_json_ok,
      \<lparr>nvs = Some [BOARD_WIFI_SSID_KEY \<mapsto> ''M'', BOARD_WIFI_PASSWORD_KEY \<mapsto> []],
       board_event_group = 4, s_wifi_event_group = None,
       s_wifi_retry_num = 0, sta_calls = []\<rparr>)"
proof -
  let ?st = "\<lparr>nvs = None, board_event_group = 0, s_wifi_event_group = None,
       s_wifi_retry_num = 0, sta_calls = []\<rparr>"
  have p: "take 127 (replicate 120 CHR ''x'' @ ''&ssid=MyNet&password=secret1'')
             = replicate 120 CHR ''x'' @ ''&ssid=M''"
    by simp
  have short: "http_server_set_wifi_config_handler nvs_ok (Httpd_sock_data 148)
      (replicate 120 CHR ''x'' @ ''&ssid=M'') ?st
   = Inr (ESP_OK, Some Resp_json_ok,
      \<lparr>nvs = Some [BOARD_WIFI_SSID_KEY \<mapsto> ''M'', BOARD_WIFI_PASSWORD_KEY \<mapsto> []],
       board_event_group = 4, s_wifi_event_group = None,
       s_wifi_retry_num = 0, sta_calls = []\<rparr>)"
    by (simp add: http_server_set_wifi_config_handler_def httpd_req_recv_def parse_ssid_def
        parse_password_def strchr_c_def plus_to_space_def board_wifi_save_config_def nvs_ok_def
        nvs_open_def nvs_set_str_def nvs_commit_def xEventGroupSetBits_def
        WIFI_CONFIG_SAVED_BIT_def eval_nat_numeral)
  show ?thesis
    using set_wifi_reads_first_127_bytes
            [of nvs_ok "Httpd_sock_data 148"
                "replicate 120 CHR ''x'' @ ''&ssid=MyNet&password=secret1''" ?st]
          short
    by (simp only: p simp_thms)
qed

section \<open>Session manager: properties\<close>

lemma session_run_append:
  "session_run ok (xs @ ys) s = session_run ok ys (session_run ok xs s)"
  by (induction xs arbitrary: s) auto

lemma timer_service_keeps:
  "announcements (timer_service now s) = announcements s"
  "first_connection s \<Longrightarrow> first_connection (timer_service now s)"
  by (simp_all add: timer_service_def reset_connection_timer_cb_def split: option.splits)

lemma handler_before_first_connected:
  assumes "ev \<noteq> WEBSOCKET_EVENT_CONNECTED"
  shows "announcements (websocket_event_handler ok now ev s) = announcements s"
    and "first_connection (websocket_event_handler ok now ev s) = first_connection s"
  using assms by (cases ev; simp add: websocket_event_handler_def Let_def)+

lemma run_before_first_connected:
  "\<forall>e \<in> set pre. snd e \<noteq> WEBSOCKET_EVENT_CONNECTED \<Longrightarrow> first_connection s \<Longrightarrow>
   first_connection (session_run ok pre s) \<and>
   announcements (session_run ok pre s) = announcements s"
proof (induction pre arbitrary: s)
  case Nil
  then show ?case by simp
next
  case (Cons e pre)
  obtain t ev where e: "e = (t, ev)" by (cases e)
  have ev: "ev \<noteq> WEBSOCKET_EVENT_CONNECTED"
    using Cons.prems(1) e by simp
  let ?s1 = "websocket_event_handler ok t ev (timer_service t s)"
  have f: "first_connection ?s1"
    using Cons.prems(2) ev by (simp add: handler_before_first_connected timer_service_keeps)
  have a: "announcements ?s1 = announcements s"
    using ev by (simp add: handler_before_first_connected timer_service_keeps)
  show ?case
    using Cons.IH [of ?s1] Cons.prems(1) f a e by simp
qed

lemma connected_announces:
  "first_connection s \<Longrightarrow>
   announcements (websocket_event_handler ok now WEBSOCKET_EVENT_CONNECTED s) = announcements s @ [now]"
  "\<not> first_connection s \<Longrightarrow>
   announcements (websocket_event_handler ok now WEBSOCKET_EVENT_CONNECTED s) = announcements s"
  by (simp_all add: websocket_event_handler_def Let_def)

text \<open>
  A Connected event that follows a Connected event and a run of Disconnected events makes
  no announcement, provided no timer runs out on the way: the timer is dormant or runs out
  later than the first of the events, and each Disconnected event is followed by the next
  event less than the quiet period later.
\<close>

lemma quick_reconnect_silent:
  "\<not> first_connection s \<Longrightarrow> timer_later ok (hd (ds @ [t2])) s \<Longrightarrow>
   successively (\<lambda>a b. b < a + RESET_TIMER_PERIOD_MS) (ds @ [t2]) \<Longrightarrow>
   announcements
     (session_run ok (map (\<lambda>d. (d, WEBSOCKET_EVENT_DISCONNECTED)) ds @ [(t2, WEBSOCKET_EVENT_CONNECTED)]) s)
     = announcements s"
proof (induction ds arbitrary: s)
  case Nil
  then have "timer_service t2 s = s"
    by (simp add: timer_service_def timer_later_def split: option.splits)
  then show ?case
    using Nil.prems(1) by (simp add: connected_announces)
next
  case (Cons d ds)
  have ts: "timer_service d s = s"
    using Cons.prems(2) by (simp add: timer_service_def timer_later_def split: option.splits)
  let ?s1 = "websocket_event_handler ok d WEBSOCKET_EVENT_DISCONNECTED s"
  have f: "\<not> first_connection ?s1" and a: "announcements ?s1 = announcements s"
    using Cons.prems(1) by (simp_all add: websocket_event_handler_def Let_def)
  have nxt: "hd (ds @ [t2]) < d + RESET_TIMER_PERIOD_MS"
    and rest: "successively (\<lambda>a b. b < a + RESET_TIMER_PERIOD_MS) (ds @ [t2])"
    using Cons.prems(3) by (simp_all add: successively_Cons)
  have tl: "timer_later ok (hd (ds @ [t2])) ?s1"
    using Cons.prems(2) nxt
    by (auto simp: websocket_event_handler_def Let_def timer_later_def split: option.splits)
  show ?case
    using Cons.IH [OF f tl rest] ts a by simp
qed

text \<open>
  From boot, the onboarding announcement is made at the very first Connected event, once,
  whatever events other than Connected come before it.
\<close>

lemma first_connected_announces_once:
  assumes "\<forall>e \<in> set pre. snd e \<noteq> WEBSOCKET_EVENT_CONNECTED"
  shows "announcements (session_run ok (pre @ [(t1, WEBSOCKET_EVENT_CONNECTED)]) session_boot) = [t1]"
proof -
  have b: "first_connection session_boot" "announcements session_boot = []"
    by (simp_all add: session_boot_def)
  let ?sp = "session_run ok pre session_boot"
  have "first_connection (timer_service t1 ?sp)" "announcements (timer_service t1 ?sp) = []"
    using run_before_first_connected [OF assms b(1), of ok] b(2)
    by (simp_all add: timer_service_keeps)
  then show ?thesis
    by (simp add: session_run_append connected_announces)
qed

text \<open>
  C5 (the announcement is made at the first Connected event and not again at a reconnect
  within the quiet period). The first half holds in the code. The second half does not:
  here the first connection attempt fails at 0 s (a Disconnected event), the session
  connects at 10 s and announces, stays connected for 40 s, loses the connection at 50 s and
  is back at 51 s. No outage lasted as long as the quiet period, and the second Connected
  event comes 1 s after the Disconnected event before it, yet the announcement is made
  again: the timer armed at 0 s was not stopped by the Connected event at 10 s, ran out at
  30 s while the session was connected, and set the flag.
\<close>

theorem announcement_repeated_at_quick_reconnect:
  "announcements
     (session_run True [(0, WEBSOCKET_EVENT_DISCONNECTED), (10000, WEBSOCKET_EVENT_CONNECTED),
                        (50000, WEBSOCKET_EVENT_DISCONNECTED), (51000, WEBSOCKET_EVENT_CONNECTED)]
        session_boot) = [10000, 51000] \<and>
   first_connection
     (session_run True [(0, WEBSOCKET_EVENT_DISCONNECTED), (10000, WEBSOCKET_EVENT_CONNECTED)]
        session_boot) = False \<and>
   s_system_state
     (timer_service 30000
        (session_run True [(0, WEBSOCKET_EVENT_DISCONNECTED), (10000, WEBSOCKET_EVENT_CONNECTED)]
           session_boot)) = SYSTEM_STATE_WS_CONNECTED \<and>
   first_connection
     (timer_service 30000
        (session_run True [(0, WEBSOCKET_EVENT_DISCONNECTED), (10000, WEBSOCKET_EVENT_CONNECTED)]
           session_boot)) = True \<and>
   10000 < 0 + RESET_TIMER_PERIOD_MS \<and>
   51000 < 50000 + RESET_TIMER_PERIOD_MS"
  by (simp add: session_boot_def websocket_event_handler_def timer_service_def
        reset_connection_timer_cb_def RESET_TIMER_PERIOD_MS_def Let_def)

text \<open>
  C6 (a reconnect within the quiet period leaves the flag false). The code does not stop the
  timer on a Connected event. The session reconnects 1 s after the disconnect and the flag
  is false then; 30 s after the disconnect the timer runs out, with the session connected
  all the while, and sets the flag. The next reconnect, again 1 s after its disconnect,
  makes the announcement a second time.
\<close>

theorem flag_reset_while_connected:
  "first_connection
     (session_run True [(0, WEBSOCKET_EVENT_CONNECTED), (1000, WEBSOCKET_EVENT_DISCONNECTED),
                        (2000, WEBSOCKET_EVENT_CONNECTED)] session_boot) = False \<and>
   first_connection
     (timer_service 31000
        (session_run True [(0, WEBSOCKET_EVENT_CONNECTED), (1000, WEBSOCKET_EVENT_DISCONNECTED),
                           (2000, WEBSOCKET_EVENT_CONNECTED)] session_boot)) = True \<and>
   s_system_state
     (timer_service 31000
        (session_run True [(0, WEBSOCKET_EVENT_CONNECTED), (1000, WEBSOCKET_EVENT_DISCONNECTED),
                           (2000, WEBSOCKET_EVENT_CONNECTED)] session_boot)) = SYSTEM_STATE_WS_CONNECTED \<and>
   announcements
     (session_run True [(0, WEBSOCKET_EVENT_CONNECTED), (1000, WEBSOCKET_EVENT_DISCONNECTED),
                        (2000, WEBSOCKET_EVENT_CONNECTED), (40000, WEBSOCKET_EVENT_DISCONNECTED),
                        (41000, WEBSOCKET_EVENT_CONNECTED)] session_boot) = [0, 41000]"
  by (simp add: session_boot_def websocket_event_handler_def timer_service_def
        reset_connection_timer_cb_def RESET_TIMER_PERIOD_MS_def Let_def)

end
